theory Spec2Isabelle
  imports Main
begin

section \<open>Search parameters\<close>

text \<open>
  The three kinds of content the service searches for (the strings \<open>'video'\<close>,
  \<open>'channel'\<close> and \<open>'playlist'\<close> of the source).
\<close>

datatype content_type = Video | Channel | Playlist

text \<open>
  The value stored under the key \<open>'category_id'\<close>: nothing (\<open>None\<close>), one category
  ID, or a list of category IDs.
\<close>

datatype category_param = NoCategory | CategoryId string | CategoryIds "string list"

text \<open>
  The \<open>search_params\<close> dictionary. A field is \<open>None\<close> when its key is absent (or holds
  Python's \<open>None\<close>); \<open>content_type\<close> is the key that \<open>search\<close> adds to its copy of the
  dictionary before it calls the client.
\<close>

record search_params =
  query :: "string option"
  content_types :: "content_type list option"
  content_type :: "content_type option"
  max_results :: "int option"
  order :: "string option"
  safe_search :: "string option"
  category_id :: category_param
  topic_id :: "string option"
  video_duration :: "string option"
  video_definition :: "string option"
  kids_filter :: "string option"
  published_after :: "string option"
  published_before :: "string option"
  region_code :: "string option"
  language :: "string option"

section \<open>Formatted results\<close>

text \<open>
  The dictionary built by \<open>format_video_info\<close>. The keys that are only added when a
  detail record is given are optional fields.
\<close>

record video_info =
  v_type :: string
  v_id :: string
  v_title :: string
  v_description :: string
  v_channel_title :: string
  v_channel_id :: string
  v_published_at :: string
  v_thumbnail_url :: string
  v_url :: string
  v_category_id :: string
  v_category_name :: string
  v_topic_ids :: "string list"
  v_topic_categories :: "string list"
  v_topic_categories_formatted :: "string list"
  v_relevant_topic_names :: "string list"
  v_inferred_topics :: "string list"
  v_duration :: "string option"
  v_duration_readable :: "string option"
  v_view_count :: "int option"
  v_like_count :: "int option"
  v_comment_count :: "int option"
  v_made_for_kids :: "bool option"
  v_privacy_status :: "string option"

record channel_info =
  c_type :: string
  c_id :: string
  c_title :: string
  c_description :: string
  c_published_at :: string
  c_thumbnail_url :: string
  c_url :: string
  c_subscriber_count :: "int option"
  c_video_count :: "int option"
  c_view_count :: "int option"
  c_keywords :: "string option"

record playlist_info =
  p_type :: string
  p_id :: string
  p_title :: string
  p_description :: string
  p_channel_title :: string
  p_channel_id :: string
  p_published_at :: string
  p_thumbnail_url :: string
  p_url :: string
  p_item_count :: "int option"
  p_privacy_status :: "string option"

datatype formatted = FVideo video_info | FChannel channel_info | FPlaylist playlist_info

section \<open>Raw search hits and detail records\<close>

text \<open>
  The JSON objects of the remote API, restricted to the keys the source reads. A nested
  object is an optional record: the source reads it with \<open>.get(key, {})\<close>, so a missing
  object behaves as one with no keys.
\<close>

record hit_id =
  id_videoId :: "string option"
  id_channelId :: "string option"
  id_playlistId :: "string option"

record snippet =
  sn_title :: "string option"
  sn_description :: "string option"
  sn_channelTitle :: "string option"
  sn_channelId :: "string option"
  sn_publishedAt :: "string option"
  sn_thumbnail_medium_url :: "string option"
  sn_categoryId :: "string option"

record raw_hit =
  hit_id :: "hit_id option"
  hit_snippet :: "snippet option"

text \<open>
  A statistics value, seen through what Python's \<open>int()\<close> does with it: it converts to
  an integer, or \<open>int()\<close> raises.
\<close>

datatype count_value = IntOk int | IntFails

record statistics =
  st_viewCount :: "count_value option"
  st_likeCount :: "count_value option"
  st_commentCount :: "count_value option"
  st_subscriberCount :: "count_value option"
  st_videoCount :: "count_value option"

record status =
  st_madeForKids :: "bool option"
  st_privacyStatus :: "string option"

record topic_details =
  td_relevantTopicIds :: "string list option"
  td_topicCategories :: "string list option"

record video_detail =
  vd_id :: "string option"
  vd_snippet :: "snippet option"
  vd_duration :: "string option option"
  vd_statistics :: "statistics option"
  vd_status :: "status option"
  vd_topicDetails :: "topic_details option"

record channel_detail =
  cd_id :: "string option"
  cd_statistics :: "statistics option"
  cd_keywords :: "string option option"

record playlist_detail =
  pd_id :: "string option"
  pd_itemCount :: "int option option"
  pd_status :: "status option"

text \<open>
  \<open>vd_duration\<close> is \<open>contentDetails.duration\<close>, \<open>cd_keywords\<close> is
  \<open>brandingSettings.channel.keywords\<close> and \<open>pd_itemCount\<close> is
  \<open>contentDetails.itemCount\<close>: the outer option is the enclosing object, the inner one
  the key.

  A dictionary is true in a condition when it has a key.
\<close>

definition video_detail_nonempty :: "video_detail \<Rightarrow> bool" where
  "video_detail_nonempty d =
     (\<not> (vd_id d = None \<and> vd_snippet d = None \<and> vd_duration d = None
         \<and> vd_statistics d = None \<and> vd_status d = None \<and> vd_topicDetails d = None))"

definition channel_detail_nonempty :: "channel_detail \<Rightarrow> bool" where
  "channel_detail_nonempty d =
     (\<not> (cd_id d = None \<and> cd_statistics d = None \<and> cd_keywords d = None))"

definition playlist_detail_nonempty :: "playlist_detail \<Rightarrow> bool" where
  "playlist_detail_nonempty d =
     (\<not> (pd_id d = None \<and> pd_itemCount d = None \<and> pd_status d = None))"

section \<open>Python helpers\<close>

datatype exn =
    NotInitialized
  | ClientNotInitialized
  | YouTubeAPIError
  | SearchError
  | DetailsError
  | ValueError

text \<open>\<open>d.get(key, default)\<close> and \<open>d.get(outer, {}).get(key)\<close>.\<close>

definition get_or :: "'a \<Rightarrow> 'a option \<Rightarrow> 'a" where
  "get_or dflt v = (case v of None \<Rightarrow> dflt | Some x \<Rightarrow> x)"

definition sub_get :: "'a option \<Rightarrow> ('a \<Rightarrow> 'b option) \<Rightarrow> 'b option" where
  "sub_get obj key = (case obj of None \<Rightarrow> None | Some x \<Rightarrow> key x)"

text \<open>Sequencing of statements that may raise: the first exception ends the block.\<close>

definition bind_exn :: "exn + 'a \<Rightarrow> ('a \<Rightarrow> exn + 'b) \<Rightarrow> exn + 'b" where
  "bind_exn r f = (case r of Inl e \<Rightarrow> Inl e | Inr x \<Rightarrow> f x)"

text \<open>\<open>int(statistics.get(key, 0))\<close>.\<close>

definition py_int :: "count_value option \<Rightarrow> exn + int" where
  "py_int v = (case v of None \<Rightarrow> Inr 0 | Some (IntOk n) \<Rightarrow> Inr n | Some IntFails \<Rightarrow> Inl ValueError)"

text \<open>\<open>needle in haystack\<close> on strings, \<open>s.split(sep)[-1]\<close> and \<open>s.replace(a, b)\<close> on characters.\<close>

fun contains :: "string \<Rightarrow> string \<Rightarrow> bool" where
  "contains needle [] = (needle = [])"
| "contains needle (c # cs) =
     (take (length needle) (c # cs) = needle \<or> contains needle cs)"

definition last_segment :: "char \<Rightarrow> string \<Rightarrow> string" where
  "last_segment sep s = rev (takeWhile (\<lambda>c. c \<noteq> sep) (rev s))"

definition replace_char :: "char \<Rightarrow> char \<Rightarrow> string \<Rightarrow> string" where
  "replace_char a b s = map (\<lambda>c. if c = a then b else c) s"

text \<open>A dictionary literal: a later entry for a key replaces an earlier one.\<close>

definition dict_of :: "(string \<times> string) list \<Rightarrow> string \<Rightarrow> string option" where
  "dict_of entries = map_of (rev entries)"

section \<open>Duration parsing\<close>

definition is_digit :: "char \<Rightarrow> bool" where
  "is_digit c = (c \<in> set ''0123456789'')"

definition digit_value :: "char \<Rightarrow> nat" where
  "digit_value c = of_char c - 48"

text \<open>\<open>int(match.group(1))\<close> on a run of decimal digits.\<close>

definition int_of_digits :: "string \<Rightarrow> nat" where
  "int_of_digits ds = foldl (\<lambda>a c. 10 * a + digit_value c) 0 ds"

text \<open>The decimal numeral of a natural number, and the format \<open>{n:02d}\<close>.\<close>

fun str_nat :: "nat \<Rightarrow> string" where
  "str_nat n =
     (if n < 10 then [''0123456789'' ! n]
      else str_nat (n div 10) @ [''0123456789'' ! (n mod 10)])"

declare str_nat.simps [simp del]

definition fmt_02d :: "nat \<Rightarrow> string" where
  "fmt_02d n = (if n < 10 then CHR ''0'' # str_nat n else str_nat n)"

text \<open>\<open>duration_string.replace('PT', '')\<close>: every occurrence, scanning from the left.\<close>

fun remove_PT :: "string \<Rightarrow> string" where
  "remove_PT [] = []"
| "remove_PT [c] = [c]"
| "remove_PT (c # d # cs) =
     (if c = CHR ''P'' \<and> d = CHR ''T'' then remove_PT cs else c # remove_PT (d # cs))"

text \<open>
  \<open>re.search(r'(\d+)U', s)\<close> for a unit letter \<open>U\<close>: the leftmost run of digits that
  the unit letter follows. \<open>run\<close> is the run of digits read so far. The digits are the
  ASCII ones.
\<close>

fun search_unit :: "char \<Rightarrow> string \<Rightarrow> string \<Rightarrow> string option" where
  "search_unit u run [] = None"
| "search_unit u run (c # cs) =
     (if is_digit c then search_unit u (run @ [c]) cs
      else if c = u \<and> run \<noteq> [] then Some run
      else search_unit u [] cs)"

definition unit_amount :: "char \<Rightarrow> string \<Rightarrow> nat" where
  "unit_amount u s =
     (if u \<in> set s
      then (case search_unit u [] s of None \<Rightarrow> 0 | Some ds \<Rightarrow> int_of_digits ds)
      else 0)"

text \<open>\<open>YouTubeDataFormatter._parse_duration\<close>; \<open>None\<close> is Python's \<open>None\<close>.\<close>

definition parse_duration :: "string option \<Rightarrow> string" where
  "parse_duration duration_string =
     (case duration_string of
        None \<Rightarrow> ''Unknown''
      | Some s0 \<Rightarrow>
          if s0 = [] then ''Unknown''
          else
            let s = remove_PT s0;
                hours = unit_amount (CHR ''H'') s;
                minutes = unit_amount (CHR ''M'') s;
                seconds = unit_amount (CHR ''S'') s
            in if hours > 0
               then fmt_02d hours @ '':'' @ fmt_02d minutes @ '':'' @ fmt_02d seconds
               else fmt_02d minutes @ '':'' @ fmt_02d seconds)"

section \<open>The formatter\<close>

text \<open>The table of \<open>YouTubeDataFormatter._get_category_name\<close>.\<close>

definition categories :: "(string \<times> string) list" where
  "categories =
     [(''1'', ''Film & Animation''), (''2'', ''Autos & Vehicles''), (''10'', ''Music''),
      (''15'', ''Pets & Animals''), (''17'', ''Sports''), (''18'', ''Short Movies''),
      (''19'', ''Travel & Events''), (''20'', ''Gaming''), (''21'', ''Videoblogging''),
      (''22'', ''People & Blogs''), (''23'', ''Comedy''), (''24'', ''Entertainment''),
      (''25'', ''News & Politics''), (''26'', ''Howto & Style''), (''27'', ''Education''),
      (''28'', ''Science & Technology''), (''29'', ''Nonprofits & Activism''),
      (''30'', ''Movies''), (''31'', ''Anime/Animation''), (''32'', ''Action/Adventure''),
      (''33'', ''Classics''), (''34'', ''Comedy''), (''35'', ''Documentary''),
      (''36'', ''Drama''), (''37'', ''Family''), (''38'', ''Foreign''), (''39'', ''Horror''),
      (''40'', ''Sci-Fi/Fantasy''), (''41'', ''Thriller''), (''42'', ''Shorts''),
      (''43'', ''Shows''), (''44'', ''Trailers'')]"

definition get_category_name :: "string \<Rightarrow> string" where
  "get_category_name cid = get_or (''Category '' @ cid) (dict_of categories cid)"

definition format_topic_categories :: "string list \<Rightarrow> string list" where
  "format_topic_categories topic_categories =
     map (\<lambda>topic_url.
            if contains ''wikipedia.org/wiki/'' topic_url
            then replace_char (CHR ''_'') (CHR '' '') (last_segment (CHR ''/'') topic_url)
            else topic_url)
         topic_categories"

definition topic_mapping :: "(string \<times> string) list" where
  "topic_mapping =
     [(''/m/04rlf'', ''Music''), (''/m/0ggq0m'', ''Pop music''), (''/m/064t9'', ''Rock music''),
      (''/m/0glt670'', ''Hip hop music''), (''/m/05rwpb'', ''Jazz''), (''/m/05pd6'', ''Blues''),
      (''/m/0342h'', ''Country music''), (''/m/02lkt'', ''Classical music''),
      (''/m/015lz1'', ''Song''), (''/m/0l14md'', ''Dance music''),
      (''/m/01lyv'', ''Electronic music''), (''/m/07gxw'', ''Rhythm and blues''),
      (''/m/06cqb'', ''Reggae''), (''/m/03_d0'', ''Folk music''),
      (''/m/02w4v'', ''Alternative rock''), (''/m/01k8wb'', ''Knowledge''),
      (''/m/019_rr'', ''Lifestyle''), (''/m/032tl'', ''Entertainment''),
      (''/m/098wr'', ''Sports''), (''/m/01h6rj'', ''Health''), (''/m/07c1v'', ''Technology''),
      (''/m/07bxq'', ''Tourism''), (''/m/06ntj'', ''Sports''), (''/m/02jjt'', ''Entertainment''),
      (''/m/05qt0'', ''Performing arts''), (''/m/07yv9'', ''Vehicle''),
      (''/m/02p0sh1'', ''Food''), (''/m/01h44'', ''Cuisine''), (''/m/02wbm'', ''Food''),
      (''/m/0kt51'', ''Health''), (''/m/01cgz'', ''Fitness''),
      (''/m/01h7lh'', ''Physical fitness''), (''/m/027x7n'', ''Cooking''),
      (''/m/02p1r'', ''Beauty''), (''/m/07c1v'', ''Technology''), (''/m/019_rr'', ''Lifestyle''),
      (''/m/098wr'', ''Sport''), (''/m/06ntj'', ''Sports''), (''/m/0jm_'', ''History''),
      (''/m/05qjt'', ''Politics''), (''/m/09s1f'', ''Business''), (''/m/04fn_'', ''Television''),
      (''/m/02vxn'', ''Movies''), (''/m/06_fw'', ''Film''), (''/m/02ntfj'', ''Documentary film''),
      (''/m/0f2f9'', ''Comedy''), (''/m/0bzvm2'', ''Gaming''), (''/m/01sjng'', ''Video game''),
      (''/m/0403l3g'', ''Video game culture''), (''/m/025zzc'', ''Animal''),
      (''/m/068hy'', ''Pet''), (''/m/0ch_cf'', ''Dog''), (''/m/01yrx'', ''Cat''),
      (''/m/07bgp'', ''Travel''), (''/m/07bxq'', ''Tourism''), (''/m/01h6rj'', ''Health''),
      (''/m/0kt51'', ''Health''), (''/m/01cgz'', ''Fitness'')]"

definition format_relevant_topic_ids :: "string list \<Rightarrow> string list" where
  "format_relevant_topic_ids topic_ids =
     map (\<lambda>tid. get_or (''Topic: '' @ tid) (dict_of topic_mapping tid)) topic_ids"

text \<open>
  \<open>YouTubeDataFormatter.format_video_info\<close>. The only statements that can raise on
  well-typed input are the three \<open>int()\<close> conversions; the detail record is used when
  it is given and is a non-empty dictionary.
\<close>

definition format_video_info :: "raw_hit \<Rightarrow> video_detail option \<Rightarrow> exn + video_info" where
  "format_video_info item video_details =
     (let snip = hit_snippet item;
          video_id = get_or [] (sub_get (hit_id item) id_videoId);
          search_category_id = get_or [] (sub_get snip sn_categoryId);
          category_name =
            (if search_category_id \<noteq> [] then get_category_name search_category_id else []);
          info = \<lparr>
            v_type = ''video'',
            v_id = video_id,
            v_title = get_or ''No title'' (sub_get snip sn_title),
            v_description = get_or ''No description'' (sub_get snip sn_description),
            v_channel_title = get_or ''Unknown Channel'' (sub_get snip sn_channelTitle),
            v_channel_id = get_or [] (sub_get snip sn_channelId),
            v_published_at = get_or [] (sub_get snip sn_publishedAt),
            v_thumbnail_url = get_or [] (sub_get snip sn_thumbnail_medium_url),
            v_url = (if video_id \<noteq> [] then ''https://www.youtube.com/watch?v='' @ video_id
                     else []),
            v_category_id = search_category_id,
            v_category_name = category_name,
            v_topic_ids = [],
            v_topic_categories = [],
            v_topic_categories_formatted = [],
            v_relevant_topic_names = [],
            v_inferred_topics = (if category_name \<noteq> [] then [category_name] else []),
            v_duration = None,
            v_duration_readable = None,
            v_view_count = None,
            v_like_count = None,
            v_comment_count = None,
            v_made_for_kids = None,
            v_privacy_status = None \<rparr>
      in case video_details of
           None \<Rightarrow> Inr info
         | Some details \<Rightarrow>
             if \<not> video_detail_nonempty details then Inr info
             else
               let detail_category_id = get_or [] (sub_get (vd_snippet details) sn_categoryId);
                   info1 =
                     (if v_category_id info = [] \<and> detail_category_id \<noteq> []
                      then info\<lparr>v_category_id := detail_category_id,
                                v_category_name := get_category_name detail_category_id\<rparr>
                      else info);
                   duration = get_or [] (sub_get (vd_duration details) (\<lambda>key. key));
                   stats = vd_statistics details;
                   topic_ids = get_or [] (sub_get (vd_topicDetails details) td_relevantTopicIds);
                   topic_categories =
                     get_or [] (sub_get (vd_topicDetails details) td_topicCategories)
               in bind_exn (py_int (sub_get stats st_viewCount)) (\<lambda>view_count.
                  bind_exn (py_int (sub_get stats st_likeCount)) (\<lambda>like_count.
                  bind_exn (py_int (sub_get stats st_commentCount)) (\<lambda>comment_count.
                    Inr (info1\<lparr>
                      v_duration := Some duration,
                      v_duration_readable := Some (parse_duration (Some duration)),
                      v_view_count := Some view_count,
                      v_like_count := Some like_count,
                      v_comment_count := Some comment_count,
                      v_made_for_kids :=
                        Some (get_or False (sub_get (vd_status details) st_madeForKids)),
                      v_privacy_status :=
                        Some (get_or ''unknown'' (sub_get (vd_status details) st_privacyStatus)),
                      v_topic_ids := topic_ids,
                      v_topic_categories := topic_categories,
                      v_topic_categories_formatted := format_topic_categories topic_categories,
                      v_relevant_topic_names := format_relevant_topic_ids topic_ids\<rparr>)))))"

text \<open>\<open>YouTubeDataFormatter.format_channel_info\<close>.\<close>

definition format_channel_info :: "raw_hit \<Rightarrow> channel_detail option \<Rightarrow> exn + channel_info" where
  "format_channel_info item channel_details =
     (let snip = hit_snippet item;
          channel_id = get_or [] (sub_get (hit_id item) id_channelId);
          info = \<lparr>
            c_type = ''channel'',
            c_id = channel_id,
            c_title = get_or ''No title'' (sub_get snip sn_title),
            c_description = get_or ''No description'' (sub_get snip sn_description),
            c_published_at = get_or [] (sub_get snip sn_publishedAt),
            c_thumbnail_url = get_or [] (sub_get snip sn_thumbnail_medium_url),
            c_url = (if channel_id \<noteq> [] then ''https://www.youtube.com/channel/'' @ channel_id
                     else []),
            c_subscriber_count = None,
            c_video_count = None,
            c_view_count = None,
            c_keywords = None \<rparr>
      in case channel_details of
           None \<Rightarrow> Inr info
         | Some details \<Rightarrow>
             if \<not> channel_detail_nonempty details then Inr info
             else
               let stats = cd_statistics details
               in bind_exn (py_int (sub_get stats st_subscriberCount)) (\<lambda>subscriber_count.
                  bind_exn (py_int (sub_get stats st_videoCount)) (\<lambda>video_count.
                  bind_exn (py_int (sub_get stats st_viewCount)) (\<lambda>view_count.
                    Inr (info\<lparr>
                      c_subscriber_count := Some subscriber_count,
                      c_video_count := Some video_count,
                      c_view_count := Some view_count,
                      c_keywords :=
                        Some (get_or [] (sub_get (cd_keywords details) (\<lambda>key. key)))\<rparr>)))))"

text \<open>\<open>YouTubeDataFormatter.format_playlist_info\<close>; nothing in it raises.\<close>

definition format_playlist_info :: "raw_hit \<Rightarrow> playlist_detail option \<Rightarrow> playlist_info" where
  "format_playlist_info item playlist_details =
     (let snip = hit_snippet item;
          playlist_id = get_or [] (sub_get (hit_id item) id_playlistId);
          info = \<lparr>
            p_type = ''playlist'',
            p_id = playlist_id,
            p_title = get_or ''No title'' (sub_get snip sn_title),
            p_description = get_or ''No description'' (sub_get snip sn_description),
            p_channel_title = get_or ''Unknown Channel'' (sub_get snip sn_channelTitle),
            p_channel_id = get_or [] (sub_get snip sn_channelId),
            p_published_at = get_or [] (sub_get snip sn_publishedAt),
            p_thumbnail_url = get_or [] (sub_get snip sn_thumbnail_medium_url),
            p_url = (if playlist_id \<noteq> []
                     then ''https://www.youtube.com/playlist?list='' @ playlist_id else []),
            p_item_count = None,
            p_privacy_status = None \<rparr>
      in case playlist_details of
           None \<Rightarrow> info
         | Some details \<Rightarrow>
             if \<not> playlist_detail_nonempty details then info
             else info\<lparr>
               p_item_count := Some (get_or 0 (sub_get (pd_itemCount details) (\<lambda>key. key))),
               p_privacy_status :=
                 Some (get_or ''unknown'' (sub_get (pd_status details) st_privacyStatus))\<rparr>)"

section \<open>Post-filters\<close>

text \<open>
  \<open>YouTubeSearchService._should_include_video\<close>: the topic test returns \<open>False\<close> first,
  then the kids test, otherwise the video is included.
\<close>

definition should_include_video :: "video_info \<Rightarrow> search_params \<Rightarrow> bool" where
  "should_include_video formatted_info params =
     (if (case topic_id params of
            None \<Rightarrow> False
          | Some t \<Rightarrow> t \<noteq> [] \<and> v_topic_ids formatted_info \<noteq> []
                      \<and> t \<notin> set (v_topic_ids formatted_info))
      then False
      else if (case v_made_for_kids formatted_info of
                 None \<Rightarrow> False
               | Some flag \<Rightarrow> kids_filter params \<noteq> Some ''any''
                             \<and> flag \<noteq> (kids_filter params = Some ''yes''))
      then False
      else True)"

text \<open>\<open>FilterManager.filter_by_topic\<close>, a helper that \<open>search\<close> does not call.\<close>

definition filter_by_topic :: "video_info list \<Rightarrow> string option \<Rightarrow> video_info list" where
  "filter_by_topic results tid =
     (case tid of
        None \<Rightarrow> results
      | Some t \<Rightarrow> if t = [] then results
                  else filter (\<lambda>result. t \<in> set (v_topic_ids result)) results)"

section \<open>The API client\<close>

text \<open>
  The parameters of one \<open>search().list(...)\<close> request, and the answers of the remote
  service. A request either fails (\<open>HttpError\<close>, or any other exception of the
  transport) or returns the \<open>items\<close> of the response. The service answers a request by
  its parameters; the ID parameter of a detail request is the comma-joined ID list.
\<close>

record search_request =
  rq_q :: string
  rq_type :: content_type
  rq_maxResults :: int
  rq_order :: string
  rq_safeSearch :: string
  rq_videoDuration :: "string option"
  rq_videoDefinition :: "string option"
  rq_videoCategoryId :: category_param
  rq_publishedAfter :: "string option"
  rq_publishedBefore :: "string option"
  rq_regionCode :: "string option"
  rq_relevanceLanguage :: "string option"

datatype remote_failure = HttpError | OtherFailure

record service =
  search_list :: "search_request \<Rightarrow> remote_failure + raw_hit list"
  videos_list :: "string \<Rightarrow> remote_failure + video_detail list"
  channels_list :: "string \<Rightarrow> remote_failure + channel_detail list"
  playlists_list :: "string \<Rightarrow> remote_failure + playlist_detail list"

text \<open>The remote calls a run issues, in order.\<close>

datatype remote_call =
    SearchList search_request
  | VideosList string
  | ChannelsList string
  | PlaylistsList string

text \<open>\<open>YouTubeAPIClient\<close>: \<open>youtube\<close> is the service object, \<open>None\<close> until it is built.\<close>

record client =
  api_key :: "string option"
  youtube :: "service option"

definition is_ready :: "client \<Rightarrow> bool" where
  "is_ready c = (youtube c \<noteq> None)"

fun join_comma :: "string list \<Rightarrow> string" where
  "join_comma [] = []"
| "join_comma [x] = x"
| "join_comma (x # y # ys) = x @ '','' @ join_comma (y # ys)"

text \<open>The two \<open>except\<close> clauses of every client method.\<close>

definition wrap_failure :: "exn \<Rightarrow> remote_failure + 'a \<Rightarrow> exn + 'a" where
  "wrap_failure other r =
     (case r of
        Inl HttpError \<Rightarrow> Inl YouTubeAPIError
      | Inl OtherFailure \<Rightarrow> Inl other
      | Inr items \<Rightarrow> Inr items)"

text \<open>\<open>YouTubeAPIClient.search_content\<close>, with the call it issues.\<close>

definition search_content ::
  "client \<Rightarrow> search_params \<Rightarrow> (exn + raw_hit list) \<times> remote_call list" where
  "search_content c params =
     (case youtube c of
        None \<Rightarrow> (Inl ClientNotInitialized, [])
      | Some svc \<Rightarrow>
          let search_request = \<lparr>
                rq_q = get_or [] (query params),
                rq_type = get_or Video (content_type params),
                rq_maxResults = get_or 10 (max_results params),
                rq_order = get_or ''relevance'' (order params),
                rq_safeSearch = get_or ''moderate'' (safe_search params),
                rq_videoDuration = video_duration params,
                rq_videoDefinition = video_definition params,
                rq_videoCategoryId = category_id params,
                rq_publishedAfter = published_after params,
                rq_publishedBefore = published_before params,
                rq_regionCode = region_code params,
                rq_relevanceLanguage = language params \<rparr>
          in (wrap_failure SearchError (search_list svc search_request),
              [SearchList search_request]))"

text \<open>\<open>get_video_details\<close>, \<open>get_channel_details\<close> and \<open>get_playlist_details\<close>.\<close>

definition get_video_details ::
  "client \<Rightarrow> string list \<Rightarrow> (exn + video_detail list) \<times> remote_call list" where
  "get_video_details c video_ids =
     (case youtube c of
        None \<Rightarrow> (Inl ClientNotInitialized, [])
      | Some svc \<Rightarrow>
          (wrap_failure DetailsError (videos_list svc (join_comma video_ids)),
           [VideosList (join_comma video_ids)]))"

definition get_channel_details ::
  "client \<Rightarrow> string list \<Rightarrow> (exn + channel_detail list) \<times> remote_call list" where
  "get_channel_details c channel_ids =
     (case youtube c of
        None \<Rightarrow> (Inl ClientNotInitialized, [])
      | Some svc \<Rightarrow>
          (wrap_failure DetailsError (channels_list svc (join_comma channel_ids)),
           [ChannelsList (join_comma channel_ids)]))"

definition get_playlist_details ::
  "client \<Rightarrow> string list \<Rightarrow> (exn + playlist_detail list) \<times> remote_call list" where
  "get_playlist_details c playlist_ids =
     (case youtube c of
        None \<Rightarrow> (Inl ClientNotInitialized, [])
      | Some svc \<Rightarrow>
          (wrap_failure DetailsError (playlists_list svc (join_comma playlist_ids)),
           [PlaylistsList (join_comma playlist_ids)]))"

section \<open>The search service\<close>

text \<open>A string (or \<open>None\<close>) in a condition: true when it is a non-empty string.\<close>

definition truthy :: "string option \<Rightarrow> bool" where
  "truthy v = (case v of None \<Rightarrow> False | Some x \<Rightarrow> x \<noteq> [])"

subsection \<open>\<open>_process_results\<close>\<close>

text \<open>The first loop of the video branch: the video IDs of the raw results.\<close>

fun collect_video_ids :: "raw_hit list \<Rightarrow> string list" where
  "collect_video_ids [] = []"
| "collect_video_ids (item # rest) =
     (let video_id = sub_get (hit_id item) id_videoId
      in if truthy video_id then get_or [] video_id # collect_video_ids rest
         else collect_video_ids rest)"

text \<open>The lookup dictionary from the detail records that carry an ID.\<close>

fun details_lookup ::
  "video_detail list \<Rightarrow> (string \<rightharpoonup> video_detail) \<Rightarrow> (string \<rightharpoonup> video_detail)" where
  "details_lookup [] video_details_dict = video_details_dict"
| "details_lookup (details # rest) video_details_dict =
     (let video_id = vd_id details
      in if truthy video_id
         then details_lookup rest (video_details_dict(get_or [] video_id \<mapsto> details))
         else details_lookup rest video_details_dict)"

text \<open>
  The second loop of the video branch. A video whose formatting raises is skipped; one
  that the post-filter rejects is dropped.
\<close>

fun process_videos ::
  "(string \<rightharpoonup> video_detail) \<Rightarrow> search_params \<Rightarrow> raw_hit list \<Rightarrow> video_info list" where
  "process_videos video_details_dict params [] = []"
| "process_videos video_details_dict params (item # rest) =
     (let video_id = sub_get (hit_id item) id_videoId;
          video_details = (if truthy video_id then video_details_dict (get_or [] video_id)
                           else None)
      in case format_video_info item video_details of
           Inl e \<Rightarrow> process_videos video_details_dict params rest
         | Inr formatted_info \<Rightarrow>
             if should_include_video formatted_info params
             then formatted_info # process_videos video_details_dict params rest
             else process_videos video_details_dict params rest)"

text \<open>
  A loop whose body, for each item, issues some calls and appends a result or, when it
  raises, appends nothing.
\<close>

fun for_each ::
  "('a \<Rightarrow> 'b option \<times> remote_call list) \<Rightarrow> 'a list \<Rightarrow> 'b list \<times> remote_call list" where
  "for_each body [] = ([], [])"
| "for_each body (item # rest) =
     (let (r, calls) = body item;
          (results, calls') = for_each body rest
      in ((case r of None \<Rightarrow> results | Some formatted_info \<Rightarrow> formatted_info # results),
          calls @ calls'))"

text \<open>The loop body for a channel and for a playlist.\<close>

definition process_channel :: "client \<Rightarrow> raw_hit \<Rightarrow> channel_info option \<times> remote_call list" where
  "process_channel c item =
     (let channel_id = sub_get (hit_id item) id_channelId
      in if truthy channel_id
         then (let (r, calls) = get_channel_details c [get_or [] channel_id]
               in (case r of
                     Inl e \<Rightarrow> None
                   | Inr channel_details \<Rightarrow>
                       (case format_channel_info item
                               (case channel_details of [] \<Rightarrow> None | d # _ \<Rightarrow> Some d) of
                          Inl e \<Rightarrow> None
                        | Inr formatted_info \<Rightarrow> Some formatted_info),
                   calls))
         else ((case format_channel_info item None of
                  Inl e \<Rightarrow> None
                | Inr formatted_info \<Rightarrow> Some formatted_info),
               []))"

definition process_playlist :: "client \<Rightarrow> raw_hit \<Rightarrow> playlist_info option \<times> remote_call list" where
  "process_playlist c item =
     (let playlist_id = sub_get (hit_id item) id_playlistId
      in if truthy playlist_id
         then (let (r, calls) = get_playlist_details c [get_or [] playlist_id]
               in (case r of
                     Inl e \<Rightarrow> None
                   | Inr playlist_details \<Rightarrow>
                       Some (format_playlist_info item
                               (case playlist_details of [] \<Rightarrow> None | d # _ \<Rightarrow> Some d)),
                   calls))
         else (Some (format_playlist_info item None), []))"

text \<open>
  \<open>YouTubeSearchService._process_results\<close>. In the video branch one detail request
  carries all the video IDs of \<open>raw_results\<close>; when it fails the lookup dictionary stays
  empty.
\<close>

definition process_results ::
  "client \<Rightarrow> raw_hit list \<Rightarrow> content_type \<Rightarrow> search_params
     \<Rightarrow> formatted list \<times> remote_call list" where
  "process_results c raw_results ctype params =
     (case ctype of
        Video \<Rightarrow>
          let video_ids = collect_video_ids raw_results;
              (video_details_dict, calls) =
                (if video_ids \<noteq> []
                 then (let (r, calls) = get_video_details c video_ids
                       in (case r of
                             Inl e \<Rightarrow> Map.empty
                           | Inr video_details_list \<Rightarrow> details_lookup video_details_list Map.empty,
                           calls))
                 else (Map.empty, []))
          in (map FVideo (process_videos video_details_dict params raw_results), calls)
      | Channel \<Rightarrow>
          let (infos, calls) = for_each (process_channel c) raw_results
          in (map FChannel infos, calls)
      | Playlist \<Rightarrow>
          let (infos, calls) = for_each (process_playlist c) raw_results
          in (map FPlaylist infos, calls))"

subsection \<open>\<open>search\<close>\<close>

text \<open>
  The entries of a formatted dictionary whose values are strings. The remaining keys
  hold lists (\<open>topic_ids\<close>, \<open>topic_categories\<close>, \<open>topic_categories_formatted\<close>,
  \<open>relevant_topic_names\<close>, \<open>inferred_topics\<close>), numbers (\<open>view_count\<close>,
  \<open>like_count\<close>, \<open>comment_count\<close>, \<open>subscriber_count\<close>, \<open>video_count\<close>,
  \<open>item_count\<close>) and a boolean (\<open>made_for_kids\<close>).
\<close>

definition optional_item :: "string \<Rightarrow> string option \<Rightarrow> (string \<times> string) list" where
  "optional_item key v = (case v of None \<Rightarrow> [] | Some x \<Rightarrow> [(key, x)])"

fun string_items :: "formatted \<Rightarrow> (string \<times> string) list" where
  "string_items (FVideo v) =
     [(''type'', v_type v), (''id'', v_id v), (''title'', v_title v),
      (''description'', v_description v), (''channel_title'', v_channel_title v),
      (''channel_id'', v_channel_id v), (''published_at'', v_published_at v),
      (''thumbnail_url'', v_thumbnail_url v), (''url'', v_url v),
      (''category_id'', v_category_id v), (''category_name'', v_category_name v)]
     @ optional_item ''duration'' (v_duration v)
     @ optional_item ''duration_readable'' (v_duration_readable v)
     @ optional_item ''privacy_status'' (v_privacy_status v)"
| "string_items (FChannel ch) =
     [(''type'', c_type ch), (''id'', c_id ch), (''title'', c_title ch),
      (''description'', c_description ch), (''published_at'', c_published_at ch),
      (''thumbnail_url'', c_thumbnail_url ch), (''url'', c_url ch)]
     @ optional_item ''keywords'' (c_keywords ch)"
| "string_items (FPlaylist pl) =
     [(''type'', p_type pl), (''id'', p_id pl), (''title'', p_title pl),
      (''description'', p_description pl), (''channel_title'', p_channel_title pl),
      (''channel_id'', p_channel_id pl), (''published_at'', p_published_at pl),
      (''thumbnail_url'', p_thumbnail_url pl), (''url'', p_url pl)]
     @ optional_item ''privacy_status'' (p_privacy_status pl)"

text \<open>\<open>result.get(key)\<close> for a key that is absent or holds a string.\<close>

definition result_get :: "formatted \<Rightarrow> string \<Rightarrow> string option" where
  "result_get result key = map_of (string_items result) key"

text \<open>Python's \<open>a or b\<close>.\<close>

definition py_or :: "string option \<Rightarrow> string option \<Rightarrow> string option" where
  "py_or a b = (if truthy a then a else b)"

text \<open>
  \<open>result.get('video_id') or result.get('channel_id') or result.get('playlist_id')\<close>;
  \<open>None\<close> is Python's \<open>None\<close>.
\<close>

definition result_id :: "formatted \<Rightarrow> string option" where
  "result_id result =
     py_or (py_or (result_get result ''video_id'') (result_get result ''channel_id''))
           (result_get result ''playlist_id'')"

text \<open>
  The loop that removes duplicates and limits the results: it stops as soon as
  \<open>unique_results\<close> has \<open>max_results\<close> entries.
\<close>

fun unique_loop ::
  "formatted list \<Rightarrow> string option set \<Rightarrow> formatted list \<Rightarrow> int \<Rightarrow> formatted list" where
  "unique_loop [] seen_ids unique_results maxr = unique_results"
| "unique_loop (result # rest) seen_ids unique_results maxr =
     (let rid = result_id result
      in if rid \<notin> seen_ids
         then (if int (length (unique_results @ [result])) \<ge> maxr
               then unique_results @ [result]
               else unique_loop rest (insert rid seen_ids) (unique_results @ [result]) maxr)
         else unique_loop rest seen_ids unique_results maxr)"

text \<open>
  The loop over the category IDs: one search per category; a category whose search
  raises is skipped.
\<close>

fun fan_out ::
  "client \<Rightarrow> search_params \<Rightarrow> content_type \<Rightarrow> string list
     \<Rightarrow> formatted list \<times> remote_call list" where
  "fan_out c params ctype [] = ([], [])"
| "fan_out c params ctype (cat # cats) =
     (let type_params = params\<lparr>content_type := Some ctype, category_id := CategoryId cat\<rparr>;
          (r, calls) = search_content c type_params;
          (formatted_results, calls') =
            (case r of
               Inl e \<Rightarrow> ([], [])
             | Inr raw_results \<Rightarrow> process_results c raw_results ctype params);
          (all_formatted_results, calls'') = fan_out c params ctype cats
      in (formatted_results @ all_formatted_results, calls @ calls' @ calls''))"

text \<open>
  The body of the loop over the content types: the list to store for the content type
  (\<open>None\<close> when the pass ends with \<open>continue\<close>) and the calls issued.
\<close>

definition search_type ::
  "client \<Rightarrow> search_params \<Rightarrow> content_type \<Rightarrow> formatted list option \<times> remote_call list" where
  "search_type c params ctype =
     (case category_id params of
        CategoryIds (cat # cats) \<Rightarrow>
          let (all_formatted_results, calls) = fan_out c params ctype (cat # cats)
          in (Some (unique_loop all_formatted_results {} [] (get_or 10 (max_results params))),
              calls)
      | _ \<Rightarrow>
          let type_params = params\<lparr>content_type := Some ctype\<rparr>;
              (r, calls) = search_content c type_params
          in (case r of
                Inl e \<Rightarrow> (None, calls)
              | Inr raw_results \<Rightarrow>
                  let (formatted_results, calls') = process_results c raw_results ctype params
                  in (Some formatted_results, calls @ calls')))"

record result_set =
  videos :: "formatted list"
  channels :: "formatted list"
  playlists :: "formatted list"

definition store :: "content_type \<Rightarrow> formatted list \<Rightarrow> result_set \<Rightarrow> result_set" where
  "store ctype formatted_results results =
     (case ctype of
        Video \<Rightarrow> results\<lparr>videos := formatted_results\<rparr>
      | Channel \<Rightarrow> results\<lparr>channels := formatted_results\<rparr>
      | Playlist \<Rightarrow> results\<lparr>playlists := formatted_results\<rparr>)"

fun search_loop ::
  "client \<Rightarrow> search_params \<Rightarrow> content_type list \<Rightarrow> result_set
     \<Rightarrow> result_set \<times> remote_call list" where
  "search_loop c params [] results = (results, [])"
| "search_loop c params (ctype # rest) results =
     (let (r, calls) = search_type c params ctype;
          results' = (case r of None \<Rightarrow> results
                      | Some formatted_results \<Rightarrow> store ctype formatted_results results);
          (final, calls') = search_loop c params rest results'
      in (final, calls @ calls'))"

text \<open>
  \<open>YouTubeSearchService.search\<close>: what it returns or raises, and the remote calls it
  issued.
\<close>

definition search :: "client \<Rightarrow> search_params \<Rightarrow> (exn + result_set) \<times> remote_call list" where
  "search c params =
     (if \<not> is_ready c then (Inl NotInitialized, [])
      else
        let (results, calls) =
              search_loop c params (get_or [Video] (content_types params))
                \<lparr>videos = [], channels = [], playlists = []\<rparr>
        in (Inr results, calls))"

section \<open>Observations on a run, and example inputs\<close>

text \<open>The search requests and the video detail requests among the calls of a run.\<close>

fun search_requests :: "remote_call list \<Rightarrow> search_request list" where
  "search_requests [] = []"
| "search_requests (SearchList rq # calls) = rq # search_requests calls"
| "search_requests (other # calls) = search_requests calls"

fun video_detail_calls :: "remote_call list \<Rightarrow> string list" where
  "video_detail_calls [] = []"
| "video_detail_calls (VideosList ids # calls) = ids # video_detail_calls calls"
| "video_detail_calls (other # calls) = video_detail_calls calls"

text \<open>The list stored for a content type, and the ID and title of each result.\<close>

definition results_of :: "content_type \<Rightarrow> result_set \<Rightarrow> formatted list" where
  "results_of ctype results =
     (case ctype of Video \<Rightarrow> videos results | Channel \<Rightarrow> channels results
      | Playlist \<Rightarrow> playlists results)"

fun id_and_title :: "formatted \<Rightarrow> string \<times> string" where
  "id_and_title (FVideo v) = (v_id v, v_title v)"
| "id_and_title (FChannel ch) = (c_id ch, c_title ch)"
| "id_and_title (FPlaylist pl) = (p_id pl, p_title pl)"

text \<open>Raw hits as the remote search returns them: an ID block and a snippet.\<close>

definition video_hit :: "string \<Rightarrow> string \<Rightarrow> string \<Rightarrow> raw_hit" where
  "video_hit vid ttl channel = \<lparr>
     hit_id = Some \<lparr>id_videoId = Some vid, id_channelId = None, id_playlistId = None\<rparr>,
     hit_snippet = Some \<lparr>
       sn_title = Some ttl, sn_description = None, sn_channelTitle = None,
       sn_channelId = Some channel, sn_publishedAt = None, sn_thumbnail_medium_url = None,
       sn_categoryId = None\<rparr>\<rparr>"

definition channel_hit :: "string \<Rightarrow> string \<Rightarrow> raw_hit" where
  "channel_hit chid ttl = \<lparr>
     hit_id = Some \<lparr>id_videoId = None, id_channelId = Some chid, id_playlistId = None\<rparr>,
     hit_snippet = Some \<lparr>
       sn_title = Some ttl, sn_description = None, sn_channelTitle = None,
       sn_channelId = Some chid, sn_publishedAt = None, sn_thumbnail_medium_url = None,
       sn_categoryId = None\<rparr>\<rparr>"

text \<open>A request as the interface builds it, with no category.\<close>

definition example_params :: search_params where
  "example_params = \<lparr>
     query = Some ''music'', content_types = Some [Video], content_type = None,
     max_results = Some 10, order = Some ''relevance'', safe_search = Some ''moderate'',
     category_id = NoCategory, topic_id = None, video_duration = None,
     video_definition = None, kids_filter = Some ''any'', published_after = None,
     published_before = None, region_code = None, language = None\<rparr>"

text \<open>
  A service that answers a search by the category of the request, finds no detail
  record, and a client built on it.
\<close>

definition service_by_category :: "(category_param \<Rightarrow> remote_failure + raw_hit list) \<Rightarrow> service" where
  "service_by_category answer = \<lparr>
     search_list = (\<lambda>rq. answer (rq_videoCategoryId rq)),
     videos_list = (\<lambda>ids. Inr []),
     channels_list = (\<lambda>ids. Inr []),
     playlists_list = (\<lambda>ids. Inr [])\<rparr>"

definition client_of :: "service \<Rightarrow> client" where
  "client_of svc = \<lparr>api_key = Some ''key'', youtube = Some svc\<rparr>"

text \<open>
  Two categories that both return the video \<open>X1\<close>; the first also returns the video
  \<open>X2\<close> of the same uploader.
\<close>

definition same_uploader_answer :: "category_param \<Rightarrow> remote_failure + raw_hit list" where
  "same_uploader_answer cat =
     (if cat = CategoryId ''10''
      then Inr [video_hit ''X1'' ''first'' ''UC1'', video_hit ''X2'' ''other'' ''UC1'']
      else Inr [video_hit ''X1'' ''second'' ''UC1''])"

text \<open>Every category returns two videos of its own, all of one uploader.\<close>

definition two_per_category_answer :: "category_param \<Rightarrow> remote_failure + raw_hit list" where
  "two_per_category_answer cat =
     (case cat of
        CategoryId k \<Rightarrow>
          Inr [video_hit (k @ ''a'') ''a'' ''UC1'', video_hit (k @ ''b'') ''b'' ''UC1'']
      | _ \<Rightarrow> Inr [])"

text \<open>Every category returns one channel of its own; category \<open>''17''\<close> fails.\<close>

definition channel_answer :: "category_param \<Rightarrow> remote_failure + raw_hit list" where
  "channel_answer cat =
     (case cat of
        CategoryId k \<Rightarrow>
          if k = ''17'' then Inl HttpError else Inr [channel_hit (''UC'' @ k) ''t'']
      | _ \<Rightarrow> Inr [])"

text \<open>
  The parameter dictionaries (\<open>type_params\<close>) of the search calls of one pass over a
  content type: one per category when \<open>category_id\<close> is a non-empty list, otherwise one
  with \<open>category_id\<close> as it is.
\<close>

definition fan_out_params :: "search_params \<Rightarrow> content_type \<Rightarrow> search_params list" where
  "fan_out_params params ctype =
     (case category_id params of
        CategoryIds (cat # cats) \<Rightarrow>
          map (\<lambda>k. params\<lparr>content_type := Some ctype, category_id := CategoryId k\<rparr>) (cat # cats)
      | _ \<Rightarrow> [params\<lparr>content_type := Some ctype\<rparr>])"

text \<open>A channel search over two categories.\<close>

definition channel_search_params :: search_params where
  "channel_search_params =
     example_params\<lparr>content_types := Some [Channel], category_id := CategoryIds [''10'', ''20'']\<rparr>"

text \<open>
  A video search over three categories, and a service whose search fails for category
  \<open>''17''\<close> and returns one video of its own, each of another uploader, for every other
  category.
\<close>

definition video_search_params :: search_params where
  "video_search_params = example_params\<lparr>category_id := CategoryIds [''10'', ''17'', ''20'']\<rparr>"

definition video_answer_17_fails :: "category_param \<Rightarrow> remote_failure + raw_hit list" where
  "video_answer_17_fails cat =
     (case cat of
        CategoryId k \<Rightarrow>
          if k = ''17'' then Inl HttpError else Inr [video_hit (''V'' @ k) ''t'' (''UC'' @ k)]
      | _ \<Rightarrow> Inr [])"

text \<open>A video search over two categories.\<close>

definition two_category_params :: search_params where
  "two_category_params = example_params\<lparr>category_id := CategoryIds [''10'', ''20'']\<rparr>"

text \<open>
  The results whose key, as \<open>result_id\<close> computes it, has not been seen before: the
  first result of every key.
\<close>

fun first_by_id :: "formatted list \<Rightarrow> string option set \<Rightarrow> formatted list" where
  "first_by_id [] seen = []"
| "first_by_id (r # rs) seen =
     (if result_id r \<in> seen then first_by_id rs seen
      else r # first_by_id rs (insert (result_id r) seen))"

text \<open>Five categories and at most three results.\<close>

definition cap_params :: search_params where
  "cap_params = example_params\<lparr>category_id := CategoryIds [''1'', ''2'', ''10'', ''15'', ''17''],
                               max_results := Some 3\<rparr>"

text \<open>
  A duration token \<open>PT#H#M#S\<close>: each of the three parts is absent or a non-empty run
  of digits followed by its unit letter; an absent part counts as zero.
\<close>

definition unit_part :: "string option \<Rightarrow> char \<Rightarrow> string" where
  "unit_part ds u = (case ds of None \<Rightarrow> [] | Some d \<Rightarrow> d @ [u])"

definition digits_amount :: "string option \<Rightarrow> nat" where
  "digits_amount ds = (case ds of None \<Rightarrow> 0 | Some d \<Rightarrow> int_of_digits d)"

definition digit_run :: "string option \<Rightarrow> bool" where
  "digit_run ds = (case ds of None \<Rightarrow> True | Some d \<Rightarrow> d \<noteq> [] \<and> list_all is_digit d)"

text \<open>A detail record with an ID and a duration, and no status block.\<close>

definition detail_without_status :: video_detail where
  "detail_without_status = \<lparr>
     vd_id = Some ''X1'', vd_snippet = None, vd_duration = Some (Some ''PT4M13S''),
     vd_statistics = None, vd_status = None, vd_topicDetails = None\<rparr>"

section \<open>Properties of the post-filters\<close>

lemma should_include_video_iff:
  "should_include_video fi p =
     ((case topic_id p of
         None \<Rightarrow> True
       | Some t \<Rightarrow> t = [] \<or> v_topic_ids fi = [] \<or> t \<in> set (v_topic_ids fi))
      \<and> (case v_made_for_kids fi of
           None \<Rightarrow> True
         | Some flag \<Rightarrow> kids_filter p = Some ''any'' \<or> flag = (kids_filter p = Some ''yes'')))"
  by (auto simp: should_include_video_def split: option.splits)

text \<open>
  C8. With no topic requested, a formatted video passes the kids filter when the filter
  is \<open>'any'\<close>; when it carries a made-for-kids flag, it passes exactly when the flag is
  the boolean the filter stands for (\<open>True\<close> for \<open>'yes'\<close>); and when it has no
  made-for-kids field it passes whatever the filter is.
\<close>

theorem kids_filter_policy:
  "should_include_video fi (p\<lparr>topic_id := None\<rparr>) =
     (case v_made_for_kids fi of
        None \<Rightarrow> True
      | Some flag \<Rightarrow> kids_filter p = Some ''any'' \<or> flag = (kids_filter p = Some ''yes''))"
  by (simp add: should_include_video_iff split: option.splits)

section \<open>The calls and the results of the fan-out\<close>

lemma search_requests_append:
  "search_requests (xs @ ys) = search_requests xs @ search_requests ys"
  by (induction xs rule: search_requests.induct) simp_all

lemma video_detail_calls_append:
  "video_detail_calls (xs @ ys) = video_detail_calls xs @ video_detail_calls ys"
  by (induction xs rule: video_detail_calls.induct) simp_all

lemma get_video_details_calls:
  "snd (get_video_details c ids) = (if is_ready c then [VideosList (join_comma ids)] else [])"
  by (simp add: get_video_details_def is_ready_def split: option.splits)

lemma get_channel_details_calls:
  "snd (get_channel_details c ids) = (if is_ready c then [ChannelsList (join_comma ids)] else [])"
  by (simp add: get_channel_details_def is_ready_def split: option.splits)

lemma get_playlist_details_calls:
  "snd (get_playlist_details c ids) = (if is_ready c then [PlaylistsList (join_comma ids)] else [])"
  by (simp add: get_playlist_details_def is_ready_def split: option.splits)

lemma process_channel_calls:
  "search_requests (snd (process_channel c item)) = []"
  "video_detail_calls (snd (process_channel c item)) = []"
  using get_channel_details_calls [of c "[get_or [] (sub_get (hit_id item) id_channelId)]"]
  by (auto simp: process_channel_def Let_def split: prod.splits if_splits)

lemma process_playlist_calls:
  "search_requests (snd (process_playlist c item)) = []"
  "video_detail_calls (snd (process_playlist c item)) = []"
  using get_playlist_details_calls [of c "[get_or [] (sub_get (hit_id item) id_playlistId)]"]
  by (auto simp: process_playlist_def Let_def split: prod.splits if_splits)

lemma for_each_calls:
  "snd (for_each body items) = concat (map (\<lambda>item. snd (body item)) items)"
  by (induction items) (simp_all add: case_prod_beta)

lemma for_each_results:
  "fst (for_each body items) =
     concat (map (\<lambda>item. case fst (body item) of None \<Rightarrow> [] | Some y \<Rightarrow> [y]) items)"
  by (induction items) (simp_all add: case_prod_beta split: option.splits)

lemma search_requests_concat_nil:
  "(\<And>x. x \<in> set xs \<Longrightarrow> search_requests (f x) = []) \<Longrightarrow> search_requests (concat (map f xs)) = []"
  by (induction xs) (simp_all add: search_requests_append)

lemma video_detail_calls_concat_nil:
  "(\<And>x. x \<in> set xs \<Longrightarrow> video_detail_calls (f x) = []) \<Longrightarrow> video_detail_calls (concat (map f xs)) = []"
  by (induction xs) (simp_all add: video_detail_calls_append)

lemma process_results_video_calls:
  "snd (process_results c raw Video p) =
     (if collect_video_ids raw \<noteq> [] \<and> is_ready c
      then [VideosList (join_comma (collect_video_ids raw))] else [])"
  using get_video_details_calls [of c "collect_video_ids raw"]
  by (auto simp: process_results_def Let_def split: prod.splits)

lemma process_results_search_requests:
  "search_requests (snd (process_results c raw ctype p)) = []"
proof (cases ctype)
  case Video
  then show ?thesis by (simp add: process_results_video_calls)
next
  case Channel
  then show ?thesis
    by (simp add: process_results_def for_each_calls search_requests_concat_nil
        process_channel_calls case_prod_beta)
next
  case Playlist
  then show ?thesis
    by (simp add: process_results_def for_each_calls search_requests_concat_nil
        process_playlist_calls case_prod_beta)
qed

lemma process_results_other_detail_calls:
  "ctype \<noteq> Video \<Longrightarrow> video_detail_calls (snd (process_results c raw ctype p)) = []"
  by (cases ctype)
     (simp_all add: process_results_def for_each_calls video_detail_calls_concat_nil
        process_channel_calls process_playlist_calls case_prod_beta)

lemma search_content_calls:
  "is_ready c \<Longrightarrow>
   map (\<lambda>rq. (rq_type rq, rq_videoCategoryId rq)) (search_requests (snd (search_content c tp)))
     = [(get_or Video (content_type tp), category_id tp)]"
  "video_detail_calls (snd (search_content c tp)) = []"
  by (auto simp: search_content_def is_ready_def Let_def split: option.splits)


lemma fan_out_Cons:
  "fst (fan_out c p ctype (cat # cats)) =
     (case fst (search_content c (p\<lparr>content_type := Some ctype, category_id := CategoryId cat\<rparr>)) of
        Inl e \<Rightarrow> []
      | Inr raw \<Rightarrow> fst (process_results c raw ctype p))
     @ fst (fan_out c p ctype cats)"
  "snd (fan_out c p ctype (cat # cats)) =
     snd (search_content c (p\<lparr>content_type := Some ctype, category_id := CategoryId cat\<rparr>))
     @ (case fst (search_content c (p\<lparr>content_type := Some ctype, category_id := CategoryId cat\<rparr>)) of
          Inl e \<Rightarrow> []
        | Inr raw \<Rightarrow> snd (process_results c raw ctype p))
     @ snd (fan_out c p ctype cats)"
  by (simp_all add: Let_def case_prod_beta split: sum.splits)

lemma fan_out_search_requests:
  "is_ready c \<Longrightarrow>
   map (\<lambda>rq. (rq_type rq, rq_videoCategoryId rq)) (search_requests (snd (fan_out c p ctype cats)))
     = map (\<lambda>cat. (ctype, CategoryId cat)) cats"
proof (induction cats)
  case Nil
  then show ?case by simp
next
  case (Cons cat cats)
  then show ?case
    by (simp add: fan_out_Cons search_requests_append search_content_calls
        process_results_search_requests get_or_def split: sum.splits del: fan_out.simps)
qed

lemma fan_out_results:
  "fst (fan_out c p ctype cats) =
     concat (map (\<lambda>cat.
       case fst (search_content c (p\<lparr>content_type := Some ctype, category_id := CategoryId cat\<rparr>)) of
         Inl e \<Rightarrow> []
       | Inr raw \<Rightarrow> fst (process_results c raw ctype p)) cats)"
proof (induction cats)
  case Nil
  then show ?case by simp
next
  case (Cons cat cats)
  then show ?case by (simp add: fan_out_Cons del: fan_out.simps)
qed

lemma fan_out_video_detail_calls:
  "is_ready c \<Longrightarrow>
   video_detail_calls (snd (fan_out c p Video cats)) =
     concat (map (\<lambda>cat.
       case fst (search_content c (p\<lparr>content_type := Some Video, category_id := CategoryId cat\<rparr>)) of
         Inl e \<Rightarrow> []
       | Inr raw \<Rightarrow> if collect_video_ids raw = [] then []
                    else [join_comma (collect_video_ids raw)]) cats)"
proof (induction cats)
  case Nil
  then show ?case by simp
next
  case (Cons cat cats)
  then show ?case
    by (simp add: fan_out_Cons video_detail_calls_append search_content_calls
        process_results_video_calls split: sum.splits del: fan_out.simps)
qed

section \<open>The loop over the content types\<close>

lemma search_type_multi:
  assumes "category_id p = CategoryIds cats" "cats \<noteq> []"
  shows "search_type c p ctype =
     (Some (unique_loop (fst (fan_out c p ctype cats)) {} [] (get_or 10 (max_results p))),
      snd (fan_out c p ctype cats))"
  using assms by (cases cats) (simp_all add: search_type_def case_prod_beta del: fan_out.simps)

lemma search_type_single:
  assumes "\<And>cat cats. category_id p \<noteq> CategoryIds (cat # cats)"
  shows "search_type c p ctype =
     (case fst (search_content c (p\<lparr>content_type := Some ctype\<rparr>)) of
        Inl e \<Rightarrow> (None, snd (search_content c (p\<lparr>content_type := Some ctype\<rparr>)))
      | Inr raw \<Rightarrow> (Some (fst (process_results c raw ctype p)),
                     snd (search_content c (p\<lparr>content_type := Some ctype\<rparr>))
                     @ snd (process_results c raw ctype p)))"
  using assms
  by (auto simp: search_type_def case_prod_beta Let_def split: category_param.splits list.splits sum.splits)

lemma search_loop_calls:
  "snd (search_loop c p ctypes results) = concat (map (\<lambda>ctype. snd (search_type c p ctype)) ctypes)"
  by (induction ctypes arbitrary: results) (simp_all add: case_prod_beta Let_def)

lemma results_of_store:
  "results_of ctype (store ctype' r results) = (if ctype = ctype' then r else results_of ctype results)"
  by (cases ctype; cases ctype') (simp_all add: results_of_def store_def)

lemma search_loop_results:
  "results_of ctype (fst (search_loop c p ctypes results)) =
     (if ctype \<in> set ctypes
      then (case fst (search_type c p ctype) of
              None \<Rightarrow> results_of ctype results
            | Some r \<Rightarrow> r)
      else results_of ctype results)"
  by (induction ctypes arbitrary: results)
     (auto simp: case_prod_beta Let_def results_of_store split: option.splits)

lemma search_ready:
  "is_ready c \<Longrightarrow>
   search c p =
     (Inr (fst (search_loop c p (get_or [Video] (content_types p))
                 \<lparr>videos = [], channels = [], playlists = []\<rparr>)),
      snd (search_loop c p (get_or [Video] (content_types p))
                 \<lparr>videos = [], channels = [], playlists = []\<rparr>))"
  by (simp add: search_def case_prod_beta)

lemma search_requests_concat:
  "search_requests (concat (map f xs)) = concat (map (\<lambda>x. search_requests (f x)) xs)"
  by (induction xs) (simp_all add: search_requests_append)

lemma video_detail_calls_concat:
  "video_detail_calls (concat (map f xs)) = concat (map (\<lambda>x. video_detail_calls (f x)) xs)"
  by (induction xs) (simp_all add: video_detail_calls_append)

section \<open>Category fan-out for every content type\<close>

text \<open>
  C3 (as amended). On a ready client, when \<open>category_id\<close> is a non-empty list, every
  requested content type, channel and playlist included, gets one search call per
  category ID, in list order, and each call carries its category ID as
  \<open>videoCategoryId\<close>.
\<close>

theorem category_fan_out_every_type:
  assumes "is_ready c" "category_id p = CategoryIds cats" "cats \<noteq> []"
  shows "map (\<lambda>rq. (rq_type rq, rq_videoCategoryId rq)) (search_requests (snd (search c p)))
         = concat (map (\<lambda>ctype. map (\<lambda>cat. (ctype, CategoryId cat)) cats)
                       (get_or [Video] (content_types p)))"
  by (simp add: search_ready [OF assms(1)] search_loop_calls search_requests_concat
      search_type_multi [OF assms(2,3)] map_concat comp_def
      fan_out_search_requests [OF assms(1)])

theorem category_fan_out_every_type_witness:
  "is_ready (client_of (service_by_category channel_answer))
   \<and> category_id channel_search_params = CategoryIds [''10'', ''20'']
   \<and> map (\<lambda>rq. (rq_type rq, rq_videoCategoryId rq))
         (search_requests
            (snd (search (client_of (service_by_category channel_answer)) channel_search_params)))
       = [(Channel, CategoryId ''10''), (Channel, CategoryId ''20'')]"
  using category_fan_out_every_type
    [of "client_of (service_by_category channel_answer)" channel_search_params "[''10'', ''20'']"]
  by (simp add: is_ready_def client_of_def channel_search_params_def example_params_def
      get_or_def)

text \<open>
  A channel search with the category list \<open>['10', '20']\<close> issues two search calls, and
  each carries a category ID.
\<close>

theorem channel_search_ignores_category_counterexample:
  "map rq_type
     (search_requests
        (snd (search (client_of (service_by_category channel_answer)) channel_search_params)))
     = [Channel, Channel]
   \<and> map rq_videoCategoryId
       (search_requests
          (snd (search (client_of (service_by_category channel_answer)) channel_search_params)))
     = [CategoryId ''10'', CategoryId ''20'']"
  by code_simp

section \<open>Video detail lookups\<close>

lemma fan_out_other_detail_calls:
  "ctype \<noteq> Video \<Longrightarrow> video_detail_calls (snd (fan_out c p ctype cats)) = []"
proof (induction cats)
  case Nil
  then show ?case by simp
next
  case (Cons cat cats)
  then show ?case
    by (simp add: fan_out_Cons video_detail_calls_append search_content_calls
        process_results_other_detail_calls split: sum.splits del: fan_out.simps)
qed

lemma search_type_video_detail_calls:
  assumes "is_ready c"
  shows "video_detail_calls (snd (search_type c p ctype)) =
     (if ctype = Video
      then concat (map (\<lambda>tp. case fst (search_content c tp) of
                                Inl e \<Rightarrow> []
                              | Inr raw \<Rightarrow> if collect_video_ids raw = [] then []
                                           else [join_comma (collect_video_ids raw)])
                       (fan_out_params p Video))
      else [])"
proof (cases "\<exists>cat cats. category_id p = CategoryIds (cat # cats)")
  case True
  then obtain cat cats where m: "category_id p = CategoryIds (cat # cats)" by blast
  have ne: "cat # cats \<noteq> []" by simp
  show ?thesis
    by (simp add: search_type_multi [OF m ne] fan_out_params_def m
        fan_out_video_detail_calls [OF assms] fan_out_other_detail_calls comp_def
        del: fan_out.simps)
next
  case False
  then have s: "\<And>cat cats. category_id p \<noteq> CategoryIds (cat # cats)" by blast
  have fp: "fan_out_params p Video = [p\<lparr>content_type := Some Video\<rparr>]"
    using s by (auto simp: fan_out_params_def split: category_param.splits list.splits)
  show ?thesis
    using assms
    by (simp add: search_type_single [OF s] fp video_detail_calls_append search_content_calls
        process_results_video_calls process_results_other_detail_calls split: sum.splits)
qed

text \<open>
  C2 (as amended). On a ready client, the video detail lookups of a search are these:
  for every pass over the video content type and every search call of that pass, in
  order, no lookup when the search call fails or returns no video ID, and otherwise
  exactly one lookup that carries all the video IDs of that search call, comma-joined.
  A pass over several categories so issues up to one lookup per category, never one per
  video ID.
\<close>

theorem video_details_one_call_per_search_call:
  assumes "is_ready c"
  shows "video_detail_calls (snd (search c p)) =
     concat (map (\<lambda>ctype.
        if ctype = Video
        then concat (map (\<lambda>tp. case fst (search_content c tp) of
                                  Inl e \<Rightarrow> []
                                | Inr raw \<Rightarrow> if collect_video_ids raw = [] then []
                                             else [join_comma (collect_video_ids raw)])
                         (fan_out_params p Video))
        else [])
      (get_or [Video] (content_types p)))"
  by (simp add: search_ready [OF assms] search_loop_calls video_detail_calls_concat
      search_type_video_detail_calls [OF assms])

theorem video_details_one_call_per_search_call_witness:
  "is_ready (client_of (service_by_category video_answer_17_fails))
   \<and> video_detail_calls
       (snd (search (client_of (service_by_category video_answer_17_fails)) video_search_params))
     = [''V10'', ''V20'']"
  using video_details_one_call_per_search_call
    [of "client_of (service_by_category video_answer_17_fails)" video_search_params]
  by code_simp

text \<open>
  One pass over the video content type with two categories issues two detail lookups,
  one after each search call.
\<close>

theorem single_batched_lookup_counterexample:
  "video_detail_calls
     (snd (search (client_of (service_by_category same_uploader_answer)) two_category_params))
   = [''X1,X2'', ''X1'']"
  by code_simp

section \<open>The readiness gate\<close>

text \<open>
  C7. When the client is not ready, \<open>search\<close> raises its not-initialised exception and
  has issued no remote call.
\<close>

theorem not_ready_no_calls:
  "\<not> is_ready c \<Longrightarrow> search c p = (Inl NotInitialized, [])"
  by (simp add: search_def)

theorem not_ready_no_calls_witness:
  "\<not> is_ready \<lparr>api_key = None, youtube = None\<rparr>
   \<and> search \<lparr>api_key = None, youtube = None\<rparr> channel_search_params = (Inl NotInitialized, [])"
  using not_ready_no_calls [of "\<lparr>api_key = None, youtube = None\<rparr>" channel_search_params]
  by (simp add: is_ready_def)

section \<open>Partial failure\<close>

text \<open>
  C6. On a ready client \<open>search\<close> returns a result set and raises nothing. For every
  requested content type, the stored list is built from the search calls of that type
  alone: with a category list, the loop that removes duplicates runs over the processed
  results of the categories whose search succeeded, in category order, a failed
  category contributing nothing; without one, it is the processed results of the single
  search, or empty when that search fails. When every search call of the content type
  fails, its list is empty.
\<close>

theorem partial_failure_tolerated:
  assumes "is_ready c" and "ctype \<in> set (get_or [Video] (content_types p))"
  shows "\<exists>results. fst (search c p) = Inr results
     \<and> results_of ctype results =
         (case category_id p of
            CategoryIds (cat # cats) \<Rightarrow>
              unique_loop
                (concat (map (\<lambda>k.
                   case fst (search_content c
                               (p\<lparr>content_type := Some ctype, category_id := CategoryId k\<rparr>)) of
                     Inl e \<Rightarrow> []
                   | Inr raw \<Rightarrow> fst (process_results c raw ctype p)) (cat # cats)))
                {} [] (get_or 10 (max_results p))
          | _ \<Rightarrow>
              (case fst (search_content c (p\<lparr>content_type := Some ctype\<rparr>)) of
                 Inl e \<Rightarrow> []
               | Inr raw \<Rightarrow> fst (process_results c raw ctype p)))
     \<and> ((\<forall>tp \<in> set (fan_out_params p ctype). isl (fst (search_content c tp)))
          \<longrightarrow> results_of ctype results = [])"
proof -
  let ?rs = "fst (search_loop c p (get_or [Video] (content_types p))
                 \<lparr>videos = [], channels = [], playlists = []\<rparr>)"
  let ?multi = "\<lambda>ks. unique_loop
                (concat (map (\<lambda>k.
                   case fst (search_content c
                               (p\<lparr>content_type := Some ctype, category_id := CategoryId k\<rparr>)) of
                     Inl e \<Rightarrow> []
                   | Inr raw \<Rightarrow> fst (process_results c raw ctype p)) ks))
                {} [] (get_or 10 (max_results p))"
  let ?single = "case fst (search_content c (p\<lparr>content_type := Some ctype\<rparr>)) of
                   Inl e \<Rightarrow> []
                 | Inr raw \<Rightarrow> fst (process_results c raw ctype p)"
  have r: "fst (search c p) = Inr ?rs" by (simp add: search_ready [OF assms(1)])
  have e: "results_of ctype \<lparr>videos = [], channels = [], playlists = []\<rparr> = []"
    by (cases ctype) (simp_all add: results_of_def)
  have v: "results_of ctype ?rs =
      (case fst (search_type c p ctype) of None \<Rightarrow> [] | Some r \<Rightarrow> r)"
    using assms(2) by (simp add: search_loop_results e split: option.splits)
  have h: "results_of ctype ?rs =
       (case category_id p of CategoryIds (cat # cats) \<Rightarrow> ?multi (cat # cats) | _ \<Rightarrow> ?single)
     \<and> ((\<forall>tp \<in> set (fan_out_params p ctype). isl (fst (search_content c tp)))
          \<longrightarrow> results_of ctype ?rs = [])"
  proof (cases "\<exists>cat cats. category_id p = CategoryIds (cat # cats)")
    case True
    then obtain cat cats where m: "category_id p = CategoryIds (cat # cats)" by blast
    have ne: "cat # cats \<noteq> []" by simp
    have A: "results_of ctype ?rs =
        unique_loop (fst (fan_out c p ctype (cat # cats))) {} [] (get_or 10 (max_results p))"
      by (simp add: v search_type_multi [OF m ne] del: fan_out.simps)
    have B: "(\<forall>tp \<in> set (fan_out_params p ctype). isl (fst (search_content c tp)))
        \<Longrightarrow> fst (fan_out c p ctype (cat # cats)) = []"
      by (auto simp: fan_out_results fan_out_params_def m isl_def simp del: fan_out.simps)
    have C: "results_of ctype ?rs = ?multi (cat # cats)"
      by (simp only: A fan_out_results)
    have D: "(\<forall>tp \<in> set (fan_out_params p ctype). isl (fst (search_content c tp)))
        \<Longrightarrow> results_of ctype ?rs = []"
      by (simp only: A B unique_loop.simps)
    from C D show ?thesis by (simp only: m category_param.case list.case) blast
  next
    case False
    then have s: "\<And>cat cats. category_id p \<noteq> CategoryIds (cat # cats)" by blast
    have fp: "fan_out_params p ctype = [p\<lparr>content_type := Some ctype\<rparr>]"
      using s by (auto simp: fan_out_params_def split: category_param.splits list.splits)
    have C: "results_of ctype ?rs = ?single"
      by (simp add: v search_type_single [OF s] split: sum.splits)
    have D: "(\<forall>tp \<in> set (fan_out_params p ctype). isl (fst (search_content c tp)))
        \<Longrightarrow> results_of ctype ?rs = []"
      by (auto simp: C fp isl_def)
    from C D s show ?thesis
      by (auto split: category_param.splits list.splits)
  qed
  from r h show ?thesis by blast
qed

theorem partial_failure_tolerated_witness:
  "is_ready (client_of (service_by_category video_answer_17_fails))
   \<and> Video \<in> set (get_or [Video] (content_types video_search_params))
   \<and> isl (fst (search_content (client_of (service_by_category video_answer_17_fails))
         (video_search_params\<lparr>content_type := Some Video, category_id := CategoryId ''17''\<rparr>)))
   \<and> map id_and_title (results_of Video (projr (fst (search
         (client_of (service_by_category video_answer_17_fails)) video_search_params))))
      = [(''V10'', ''t''), (''V20'', ''t'')]"
proof -
  let ?c = "client_of (service_by_category video_answer_17_fails)"
  have a: "is_ready ?c" by code_simp
  have b: "Video \<in> set (get_or [Video] (content_types video_search_params))" by code_simp
  have f: "isl (fst (search_content ?c
         (video_search_params\<lparr>content_type := Some Video, category_id := CategoryId ''17''\<rparr>)))"
    by code_simp
  from partial_failure_tolerated [OF a b]
  obtain results where r: "fst (search ?c video_search_params) = Inr results"
    and v: "results_of Video results =
         (case category_id video_search_params of
            CategoryIds (cat # cats) \<Rightarrow>
              unique_loop
                (concat (map (\<lambda>k.
                   case fst (search_content ?c
                               (video_search_params\<lparr>content_type := Some Video,
                                                     category_id := CategoryId k\<rparr>)) of
                     Inl e \<Rightarrow> []
                   | Inr raw \<Rightarrow> fst (process_results ?c raw Video video_search_params))
                   (cat # cats)))
                {} [] (get_or 10 (max_results video_search_params))
          | _ \<Rightarrow>
              (case fst (search_content ?c (video_search_params\<lparr>content_type := Some Video\<rparr>)) of
                 Inl e \<Rightarrow> []
               | Inr raw \<Rightarrow> fst (process_results ?c raw Video video_search_params)))"
    by blast
  have "map id_and_title
         (case category_id video_search_params of
            CategoryIds (cat # cats) \<Rightarrow>
              unique_loop
                (concat (map (\<lambda>k.
                   case fst (search_content ?c
                               (video_search_params\<lparr>content_type := Some Video,
                                                     category_id := CategoryId k\<rparr>)) of
                     Inl e \<Rightarrow> []
                   | Inr raw \<Rightarrow> fst (process_results ?c raw Video video_search_params))
                   (cat # cats)))
                {} [] (get_or 10 (max_results video_search_params))
          | _ \<Rightarrow>
              (case fst (search_content ?c (video_search_params\<lparr>content_type := Some Video\<rparr>)) of
                 Inl e \<Rightarrow> []
               | Inr raw \<Rightarrow> fst (process_results ?c raw Video video_search_params)))
        = [(''V10'', ''t''), (''V20'', ''t'')]"
    by code_simp
  then have "map id_and_title (results_of Video (projr (fst (search ?c video_search_params))))
      = [(''V10'', ''t''), (''V20'', ''t'')]"
    by (simp only: r v sum.sel)
  with a b f show ?thesis by blast
qed

section \<open>Removing duplicates and limiting the results\<close>

text \<open>
  The key of a result: a video and a playlist are keyed by the channel that owns them,
  a channel has no key. While fewer than \<open>max_results\<close> results are kept, the loop
  keeps the first result of every key, up to \<open>max_results\<close> of them.
\<close>

lemma result_id_cases:
  "result_id (FVideo v) = (if v_channel_id v = [] then None else Some (v_channel_id v))"
  "result_id (FChannel ch) = None"
  "result_id (FPlaylist pl) = (if p_channel_id pl = [] then None else Some (p_channel_id pl))"
  by (simp_all add: result_id_def result_get_def py_or_def truthy_def optional_item_def
      split: option.splits)

lemma unique_loop_take:
  "int (length acc) < m \<Longrightarrow>
   unique_loop rs seen acc m = take (nat m) (acc @ first_by_id rs seen)"
proof (induction rs arbitrary: seen acc)
  case Nil
  then show ?case by simp
next
  case (Cons r rs)
  show ?case
  proof (cases "result_id r \<in> seen")
    case True
    then show ?thesis using Cons by simp
  next
    case False
    show ?thesis
    proof (cases "int (length (acc @ [r])) \<ge> m")
      case True
      with Cons.prems have "nat m = length (acc @ [r])" by simp
      then show ?thesis using False True by simp
    next
      case False2: False
      then have "int (length (acc @ [r])) < m" by simp
      from Cons.IH [OF this] show ?thesis using False False2 by simp
    qed
  qed
qed

lemma first_by_id_distinct:
  "distinct (map result_id (first_by_id rs seen)) \<and>
   set (map result_id (first_by_id rs seen)) \<inter> seen = {}"
  by (induction rs arbitrary: seen) auto

text \<open>
  C1 (the code at a failing input). Two categories return the video \<open>X1\<close>, and the
  first also returns the video \<open>X2\<close> of the same uploader: the merged list holds
  \<open>X1\<close> with the metadata of the first category, and \<open>X2\<close>, the only result with
  that video ID, is dropped.
\<close>

theorem dedup_drops_video_of_same_uploader:
  "map id_and_title
     (videos (projr (fst (search (client_of (service_by_category same_uploader_answer))
                            two_category_params))))
   = [(''X1'', ''first'')]"
  by code_simp

text \<open>
  C5 (the code at a failing input). Five categories return two videos each, ten
  distinct video IDs of one uploader, and \<open>max_results\<close> is 3: the list holds one
  result.
\<close>

theorem cap_after_dedup_yields_one_result:
  "map id_and_title
     (videos (projr (fst (search (client_of (service_by_category two_per_category_answer))
                            cap_params))))
   = [(''1a'', ''a'')]"
  by code_simp

section \<open>Properties of duration parsing\<close>

lemma nth_digit_cases:
  assumes "k < 10"
  shows "k = 0 \<or> k = 1 \<or> k = 2 \<or> k = 3 \<or> k = 4 \<or> k = 5 \<or> k = 6 \<or> k = 7 \<or> k = 8 \<or> k = (9::nat)"
  using assms by arith

lemma is_digit_nth: "k < 10 \<Longrightarrow> is_digit (''0123456789'' ! k)"
  using nth_digit_cases [of k] by (auto simp: is_digit_def)

lemma digit_value_nth: "k < 10 \<Longrightarrow> digit_value (''0123456789'' ! k) = k"
  using nth_digit_cases [of k] by (auto simp: digit_value_def)

lemma int_of_digits_snoc:
  "int_of_digits (ds @ [c]) = 10 * int_of_digits ds + digit_value c"
  by (simp add: int_of_digits_def)

lemma str_nat_digits: "list_all is_digit (str_nat n)"
proof (induction n rule: str_nat.induct)
  case (1 n)
  show ?case
  proof (cases "n < 10")
    case True
    then show ?thesis by (subst str_nat.simps) (simp add: is_digit_nth)
  next
    case False
    with 1 show ?thesis by (subst str_nat.simps) (simp add: is_digit_nth)
  qed
qed

lemma int_of_digits_str_nat: "int_of_digits (str_nat n) = n"
proof (induction n rule: str_nat.induct)
  case (1 n)
  show ?case
  proof (cases "n < 10")
    case True
    then show ?thesis
      by (subst str_nat.simps) (simp add: int_of_digits_def digit_value_nth)
  next
    case False
    with 1 show ?thesis
      by (subst str_nat.simps) (simp add: int_of_digits_snoc digit_value_nth)
  qed
qed

lemma str_nat_length: "length (str_nat n) = (if n < 10 then 1 else Suc (length (str_nat (n div 10))))"
  by (subst str_nat.simps) simp

lemma fmt_02d_render:
  "list_all is_digit (fmt_02d n) \<and> int_of_digits (fmt_02d n) = n
   \<and> 2 \<le> length (fmt_02d n) \<and> (n < 100 \<longrightarrow> length (fmt_02d n) = 2)"
proof -
  have z: "int_of_digits (CHR ''0'' # ds) = int_of_digits ds" for ds
    by (simp add: int_of_digits_def digit_value_def)
  have p: "1 \<le> length (str_nat k)" for k
    using str_nat_length [of k] by simp
  have l: "n < 100 \<Longrightarrow> \<not> n < 10 \<Longrightarrow> length (str_nat n) = 2"
  proof -
    assume "n < 100" "\<not> n < 10"
    then have "n div 10 < 10" by simp
    then show ?thesis
      using str_nat_length [of n] str_nat_length [of "n div 10"] \<open>\<not> n < 10\<close> by simp
  qed
  have g: "\<not> n < 10 \<Longrightarrow> 2 \<le> length (str_nat n)"
    using str_nat_length [of n] p [of "n div 10"] by simp
  show ?thesis
    using l g
    by (auto simp: fmt_02d_def str_nat_digits int_of_digits_str_nat z is_digit_def
        str_nat_length [of n])
qed

lemma remove_PT_no_P: "CHR ''P'' \<notin> set s \<Longrightarrow> remove_PT s = s"
  by (induction s rule: remove_PT.induct) auto

lemma digits_no_letter: "list_all is_digit d \<Longrightarrow> \<not> is_digit c \<Longrightarrow> c \<notin> set d"
  by (auto simp: list_all_iff)

lemma search_unit_digits:
  "list_all is_digit d \<Longrightarrow> search_unit u run (d @ cs) = search_unit u (run @ d) cs"
  by (induction d arbitrary: run) auto

lemma search_unit_block_hit:
  "list_all is_digit d \<Longrightarrow> d \<noteq> [] \<Longrightarrow> \<not> is_digit u \<Longrightarrow> search_unit u [] (d @ u # cs) = Some d"
  by (simp add: search_unit_digits)

lemma search_unit_block_skip:
  "list_all is_digit d \<Longrightarrow> \<not> is_digit c \<Longrightarrow> c \<noteq> u \<Longrightarrow>
   search_unit u [] (d @ c # cs) = search_unit u [] cs"
  by (simp add: search_unit_digits)

lemma letters_not_digits:
  "\<not> is_digit (CHR ''H'')" "\<not> is_digit (CHR ''M'')" "\<not> is_digit (CHR ''S'')"
  "\<not> is_digit (CHR ''P'')"
  by (simp_all add: is_digit_def)

lemma unit_amounts:
  assumes "digit_run h" "digit_run m" "digit_run s"
  shows "unit_amount (CHR ''H'')
           (unit_part h (CHR ''H'') @ unit_part m (CHR ''M'') @ unit_part s (CHR ''S''))
         = digits_amount h"
    and "unit_amount (CHR ''M'')
           (unit_part h (CHR ''H'') @ unit_part m (CHR ''M'') @ unit_part s (CHR ''S''))
         = digits_amount m"
    and "unit_amount (CHR ''S'')
           (unit_part h (CHR ''H'') @ unit_part m (CHR ''M'') @ unit_part s (CHR ''S''))
         = digits_amount s"
  using assms
  by (auto simp: unit_amount_def unit_part_def digits_amount_def digit_run_def
      search_unit_block_hit search_unit_block_skip letters_not_digits
      dest: digits_no_letter [OF _ letters_not_digits(1)]
            digits_no_letter [OF _ letters_not_digits(2)]
            digits_no_letter [OF _ letters_not_digits(3)]
      split: option.splits)

lemma token_no_P:
  assumes "digit_run h" "digit_run m" "digit_run s"
  shows "CHR ''P'' \<notin> set (unit_part h (CHR ''H'') @ unit_part m (CHR ''M'')
                            @ unit_part s (CHR ''S''))"
  using assms
  by (auto simp: unit_part_def digit_run_def dest: digits_no_letter [OF _ letters_not_digits(4)]
      split: option.splits)

lemma parse_token:
  assumes "digit_run h" "digit_run m" "digit_run s"
  shows "parse_duration
           (Some (''PT'' @ unit_part h (CHR ''H'') @ unit_part m (CHR ''M'')
                  @ unit_part s (CHR ''S''))) =
    (if digits_amount h > 0
     then fmt_02d (digits_amount h) @ '':'' @ fmt_02d (digits_amount m) @ '':''
          @ fmt_02d (digits_amount s)
     else fmt_02d (digits_amount m) @ '':'' @ fmt_02d (digits_amount s))"
proof -
  let ?rest = "unit_part h (CHR ''H'') @ unit_part m (CHR ''M'') @ unit_part s (CHR ''S'')"
  have "remove_PT (''PT'' @ ?rest) = remove_PT ?rest" by simp
  also have "\<dots> = ?rest" using token_no_P [OF assms] by (rule remove_PT_no_P)
  finally have r: "remove_PT (''PT'' @ ?rest) = ?rest" .
  show ?thesis
    unfolding parse_duration_def
    by (simp only: r unit_amounts [OF assms] Let_def option.case) simp
qed

text \<open>
  C9. The parser returns \<open>Unknown\<close> for an absent or empty token. For a token
  \<open>PT#H#M#S\<close> with any of the three parts present, it returns minutes and seconds when
  the hours are zero and hours, minutes and seconds otherwise, separated by colons. A
  component is rendered in decimal with at least two digits, exactly two below 100, and
  reads back as its value. \<open>PT1H2M3S\<close> gives \<open>01:02:03\<close> and \<open>PT4M13S\<close> gives
  \<open>04:13\<close>.
\<close>

theorem parse_duration_token:
  assumes "digit_run h" "digit_run m" "digit_run s"
  shows "parse_duration None = ''Unknown''
     \<and> parse_duration (Some []) = ''Unknown''
     \<and> parse_duration
         (Some (''PT'' @ unit_part h (CHR ''H'') @ unit_part m (CHR ''M'')
                @ unit_part s (CHR ''S''))) =
       (if digits_amount h > 0
        then fmt_02d (digits_amount h) @ '':'' @ fmt_02d (digits_amount m) @ '':''
             @ fmt_02d (digits_amount s)
        else fmt_02d (digits_amount m) @ '':'' @ fmt_02d (digits_amount s))
     \<and> (\<forall>n. list_all is_digit (fmt_02d n) \<and> int_of_digits (fmt_02d n) = n
             \<and> 2 \<le> length (fmt_02d n) \<and> (n < 100 \<longrightarrow> length (fmt_02d n) = 2))
     \<and> parse_duration (Some ''PT1H2M3S'') = ''01:02:03''
     \<and> parse_duration (Some ''PT4M13S'') = ''04:13''"
proof -
  have a: "parse_duration None = ''Unknown''" "parse_duration (Some []) = ''Unknown''"
    by (simp_all add: parse_duration_def)
  have b: "parse_duration (Some ''PT1H2M3S'') = ''01:02:03''"
    by (simp add: parse_duration_def unit_amount_def is_digit_def int_of_digits_def
        digit_value_def fmt_02d_def str_nat.simps)
  have c: "parse_duration (Some ''PT4M13S'') = ''04:13''"
    by (simp add: parse_duration_def unit_amount_def is_digit_def int_of_digits_def
        digit_value_def fmt_02d_def str_nat.simps)
  from a b c parse_token [OF assms] fmt_02d_render show ?thesis by blast
qed

theorem parse_duration_token_witness:
  "digit_run (Some ''12'') \<and> digit_run None \<and> digit_run (Some ''5'')
   \<and> parse_duration (Some ''PT12H5S'') = ''12:00:05''"
proof -
  have h: "digit_run (Some ''12'')" "digit_run None" "digit_run (Some ''5'')"
    by (simp_all add: digit_run_def is_digit_def)
  from parse_duration_token [OF h]
  have "parse_duration
         (Some (''PT'' @ unit_part (Some ''12'') (CHR ''H'') @ unit_part None (CHR ''M'')
                @ unit_part (Some ''5'') (CHR ''S''))) =
       (if digits_amount (Some ''12'') > 0
        then fmt_02d (digits_amount (Some ''12'')) @ '':'' @ fmt_02d (digits_amount None) @ '':''
             @ fmt_02d (digits_amount (Some ''5''))
        else fmt_02d (digits_amount None) @ '':'' @ fmt_02d (digits_amount (Some ''5'')))"
    by blast
  then have "parse_duration (Some ''PT12H5S'') = ''12:00:05''"
    by (simp add: unit_part_def digits_amount_def int_of_digits_def digit_value_def
        fmt_02d_def str_nat.simps)
  with h show ?thesis by blast
qed

section \<open>The topic filter\<close>

text \<open>
  C4 (as amended). The topic test that \<open>search\<close> applies to a formatted video passes
  when no topic is requested or the requested topic is empty, and also when the topic
  list of the video is empty; otherwise it passes exactly when the requested topic is
  in the list. \<open>filter_by_topic\<close>, which \<open>search\<close> does not call, keeps all results when
  no topic is requested and otherwise exactly those whose list holds the topic.
\<close>

theorem topic_filter_policy:
  "should_include_video fi (p\<lparr>kids_filter := Some ''any''\<rparr>) =
     (case topic_id p of
        None \<Rightarrow> True
      | Some t \<Rightarrow> t = [] \<or> v_topic_ids fi = [] \<or> t \<in> set (v_topic_ids fi))
   \<and> filter_by_topic results tid =
       filter (\<lambda>result. case tid of
                          None \<Rightarrow> True
                        | Some t \<Rightarrow> t = [] \<or> t \<in> set (v_topic_ids result))
              results"
  by (auto simp: should_include_video_iff filter_by_topic_def split: option.splits)

text \<open>
  A video formatted without a detail record has an empty topic list, and passes when a
  topic is requested.
\<close>

theorem topic_filter_empty_list_counterexample:
  "v_topic_ids (projr (format_video_info (video_hit ''X1'' ''first'' ''UC1'') None)) = []
   \<and> should_include_video
       (projr (format_video_info (video_hit ''X1'' ''first'' ''UC1'') None))
       (example_params\<lparr>topic_id := Some ''/m/04rlf''\<rparr>)"
  by code_simp

section \<open>The made-for-kids flag\<close>

lemma format_video_info_no_detail:
  "dopt = None \<or> (\<exists>d. dopt = Some d \<and> \<not> video_detail_nonempty d) \<Longrightarrow>
   \<exists>info. format_video_info item dopt = Inr info \<and> v_made_for_kids info = None
      \<and> v_topic_ids info = []"
  by (auto simp: format_video_info_def Let_def)

lemma format_video_info_detail:
  assumes "video_detail_nonempty d" "format_video_info item (Some d) = Inr info"
  shows "v_made_for_kids info = Some (get_or False (sub_get (vd_status d) st_madeForKids))"
    and "v_topic_ids info = get_or [] (sub_get (vd_topicDetails d) td_relevantTopicIds)"
  using assms
  by (auto simp: format_video_info_def Let_def bind_exn_def split: sum.splits if_splits)

lemma format_video_info_returns:
  assumes "py_int (sub_get (vd_statistics d) st_viewCount) = Inr a"
    "py_int (sub_get (vd_statistics d) st_likeCount) = Inr b"
    "py_int (sub_get (vd_statistics d) st_commentCount) = Inr e"
  shows "\<exists>info. format_video_info item (Some d) = Inr info"
  using assms
  by (auto simp: format_video_info_def Let_def bind_exn_def)

lemma details_lookup_nonempty:
  "details_lookup ds m k = Some d \<Longrightarrow> \<forall>k' d'. m k' = Some d' \<longrightarrow> video_detail_nonempty d'
   \<Longrightarrow> video_detail_nonempty d"
proof (induction ds arbitrary: m)
  case Nil
  then show ?case by simp
next
  case (Cons x ds)
  show ?case
  proof (cases "truthy (vd_id x)")
    case True
    then have ne: "video_detail_nonempty x"
      by (auto simp: truthy_def video_detail_nonempty_def split: option.splits)
    from Cons.prems(1) True
    have l: "details_lookup ds (m(get_or [] (vd_id x) \<mapsto> x)) k = Some d"
      by (simp add: Let_def)
    have "\<forall>k' d'. (m(get_or [] (vd_id x) \<mapsto> x)) k' = Some d' \<longrightarrow> video_detail_nonempty d'"
      using Cons.prems(2) ne by auto
    with l show ?thesis by (rule Cons.IH)
  next
    case False
    with Cons.prems(1) have "details_lookup ds m k = Some d" by (simp add: Let_def)
    then show ?thesis using Cons.prems(2) by (rule Cons.IH)
  qed
qed

text \<open>
  C10. A video formatted with a detail record (a non-empty one) carries a
  \<open>made_for_kids\<close> field, \<open>False\<close> when the status block or its \<open>madeForKids\<close> key is
  missing; such a video is rejected when the kids filter is \<open>'yes'\<close>. The field is
  absent exactly when no detail record, or an empty one, is given; the records of the
  lookup dictionary are never empty.
\<close>

theorem made_for_kids_defaults_to_false:
  assumes "video_detail_nonempty d" and "format_video_info item (Some d) = Inr info"
  shows "v_made_for_kids info =
           Some (case vd_status d of
                   None \<Rightarrow> False
                 | Some st \<Rightarrow> (case st_madeForKids st of None \<Rightarrow> False | Some flag \<Rightarrow> flag))
     \<and> ((vd_status d = None \<or> (\<exists>st. vd_status d = Some st \<and> st_madeForKids st = None))
          \<longrightarrow> \<not> should_include_video info (p\<lparr>kids_filter := Some ''yes''\<rparr>))
     \<and> (\<forall>dopt info'. format_video_info item dopt = Inr info' \<longrightarrow>
           (v_made_for_kids info' = None) =
           (dopt = None \<or> (\<exists>d'. dopt = Some d' \<and> \<not> video_detail_nonempty d')))
     \<and> (\<forall>ds k d'. details_lookup ds Map.empty k = Some d' \<longrightarrow> video_detail_nonempty d')"
proof -
  have a: "v_made_for_kids info =
           Some (case vd_status d of
                   None \<Rightarrow> False
                 | Some st \<Rightarrow> (case st_madeForKids st of None \<Rightarrow> False | Some flag \<Rightarrow> flag))"
    using format_video_info_detail(1) [OF assms]
    by (simp add: get_or_def sub_get_def split: option.splits)
  have b: "(vd_status d = None \<or> (\<exists>st. vd_status d = Some st \<and> st_madeForKids st = None))
          \<Longrightarrow> \<not> should_include_video info (p\<lparr>kids_filter := Some ''yes''\<rparr>)"
    using a by (auto simp: should_include_video_iff)
  have c: "format_video_info item dopt = Inr info' \<Longrightarrow>
           (v_made_for_kids info' = None) =
           (dopt = None \<or> (\<exists>d'. dopt = Some d' \<and> \<not> video_detail_nonempty d'))" for dopt info'
  proof (cases "dopt = None \<or> (\<exists>d'. dopt = Some d' \<and> \<not> video_detail_nonempty d')")
    case True
    assume "format_video_info item dopt = Inr info'"
    with format_video_info_no_detail [OF True, of item] True show ?thesis by auto
  next
    case False
    assume f: "format_video_info item dopt = Inr info'"
    from False obtain d' where "dopt = Some d'" "video_detail_nonempty d'" by auto
    with format_video_info_detail(1) [of d' item info'] f False show ?thesis by auto
  qed
  have e: "details_lookup ds Map.empty k = Some d' \<Longrightarrow> video_detail_nonempty d'" for ds k d'
    using details_lookup_nonempty [of ds Map.empty k d'] by simp
  from a b c e show ?thesis by blast
qed

theorem made_for_kids_defaults_to_false_witness:
  "video_detail_nonempty detail_without_status
   \<and> \<not> isl (format_video_info (video_hit ''X1'' ''first'' ''UC1'') (Some detail_without_status))
   \<and> v_made_for_kids
       (projr (format_video_info (video_hit ''X1'' ''first'' ''UC1'') (Some detail_without_status)))
     = Some False
   \<and> \<not> should_include_video
       (projr (format_video_info (video_hit ''X1'' ''first'' ''UC1'') (Some detail_without_status)))
       (example_params\<lparr>kids_filter := Some ''yes''\<rparr>)"
proof -
  let ?f = "format_video_info (video_hit ''X1'' ''first'' ''UC1'') (Some detail_without_status)"
  have n: "video_detail_nonempty detail_without_status" by code_simp
  have r: "\<not> isl ?f" by code_simp
  then have i: "?f = Inr (projr ?f)" by (cases ?f) simp_all
  have s: "vd_status detail_without_status = None" by (simp add: detail_without_status_def)
  from made_for_kids_defaults_to_false [OF n i, of example_params] s n r
  show ?thesis by simp
qed

end
